theory Spec2Isabelle
  imports Main "HOL-Library.Sublist"
begin

section \<open>Values exchanged with the ArgoCD API\<close>

text \<open>
  JSON values as Python's \<open>json\<close> module builds them: \<open>None\<close>, \<open>bool\<close>, \<open>int\<close>,
  \<open>float\<close>, \<open>str\<close>, \<open>list\<close> and \<open>dict\<close>. A dict is an association list in insertion order;
  a lookup reads the first entry of a key. A float is kept as mantissa and binary
  exponent; the client never computes with one.
\<close>

datatype json =
    JNull
  | JBool bool
  | JInt int
  | JFloat int int
  | JStr string
  | JArr "json list"
  | JObj "(string \<times> json) list"

text \<open>
  The exceptions that can reach the \<open>except\<close> clauses of \<open>make_api_request\<close>, each with
  the text \<open>str(e)\<close>. \<open>RequestError\<close> stands for every \<open>httpx.RequestError\<close> that is not a
  \<open>TimeoutException\<close>, \<open>OtherException\<close> for every other instance of \<open>Exception\<close>
  (a \<open>TypeError\<close>, for one), and \<open>NonException\<close> for a \<open>BaseException\<close> outside
  \<open>Exception\<close> (task cancellation, a keyboard interrupt), which no clause catches.
\<close>

datatype exn =
    TimeoutException string
  | HTTPStatusError int string
  | RequestError string
  | OtherException string
  | NonException string

fun is_Exception :: "exn \<Rightarrow> bool" where
  "is_Exception (NonException _) = False"
| "is_Exception _ = True"

text \<open>
  What the client takes from the Python runtime without defining it: \<open>str()\<close> of a JSON
  value that is not a \<open>str\<close>, and the texts of the \<open>TypeError\<close>s raised by \<open>in\<close> on a value
  that is no container and by \<open>v['key']\<close> on a value that is no dict.
\<close>

record python =
  str_of :: "json \<Rightarrow> string"
  not_container_msg :: "json \<Rightarrow> string"
  bad_index_msg :: "json \<Rightarrow> string"

section \<open>Python primitives used by the client\<close>

text \<open>Decimal text of an integer, as an f-string prints it.\<close>

fun str_nat :: "nat \<Rightarrow> string" where
  "str_nat n =
     (if n < 10 then [''0123456789'' ! n]
      else str_nat (n div 10) @ [''0123456789'' ! (n mod 10)])"

declare str_nat.simps [simp del]

definition str_int :: "int \<Rightarrow> string" where
  "str_int i = (if i < 0 then ''-'' @ str_nat (nat (- i)) else str_nat (nat i))"

text \<open>\<open>f"{v}"\<close> for a JSON value: a \<open>str\<close> is printed as it is.\<close>

definition py_str :: "python \<Rightarrow> json \<Rightarrow> string" where
  "py_str py v = (case v of JStr s \<Rightarrow> s | _ \<Rightarrow> str_of py v)"

text \<open>Truth value of an \<open>Optional[str]\<close>: \<open>None\<close> and the empty string are falsy.\<close>

definition truthy :: "string option \<Rightarrow> bool" where
  "truthy t = (case t of None \<Rightarrow> False | Some s \<Rightarrow> s \<noteq> [])"

text \<open>\<open>sub in s\<close> on two strings.\<close>

definition str_contains :: "string \<Rightarrow> string \<Rightarrow> bool" where
  "str_contains sub s = sublist sub s"

text \<open>
  \<open>s.replace(old, new)\<close>: the occurrences of \<open>old\<close> found from left to right, none
  overlapping an earlier one, are replaced; an empty \<open>old\<close> matches before every
  character and at the end.
\<close>

function py_replace :: "string \<Rightarrow> string \<Rightarrow> string \<Rightarrow> string" where
  "py_replace old new [] = (if old = [] then new else [])"
| "py_replace old new (c # cs) =
     (if old = [] then new @ c # py_replace old new cs
      else if prefix old (c # cs) then new @ py_replace old new (drop (length old) (c # cs))
      else c # py_replace old new cs)"
  by pat_completeness auto
termination
  by (relation "measure (\<lambda>(old, new, s). length s)") (auto simp: Suc_le_eq)

text \<open>\<open>key in v\<close> for a string \<open>key\<close> and a JSON value \<open>v\<close>.\<close>

definition py_in :: "python \<Rightarrow> string \<Rightarrow> json \<Rightarrow> exn + bool" where
  "py_in py key v =
     (case v of
        JObj kvs \<Rightarrow> Inr (map_of kvs key \<noteq> None)
      | JArr xs \<Rightarrow> Inr (JStr key \<in> set xs)
      | JStr s \<Rightarrow> Inr (str_contains key s)
      | _ \<Rightarrow> Inl (OtherException (not_container_msg py v)))"

text \<open>\<open>v[key]\<close> for a string \<open>key\<close>: a \<open>KeyError\<close> prints the \<open>repr\<close> of the key.\<close>

definition py_getitem :: "python \<Rightarrow> json \<Rightarrow> string \<Rightarrow> exn + json" where
  "py_getitem py v key =
     (case v of
        JObj kvs \<Rightarrow>
          (case map_of kvs key of
             Some x \<Rightarrow> Inr x
           | None \<Rightarrow> Inl (OtherException (str_of py (JStr key))))
      | _ \<Rightarrow> Inl (OtherException (bad_index_msg py v)))"

section \<open>The HTTP request helper (api/client.py)\<close>

text \<open>
  The module globals read at call time. The module's import stops with a \<open>ValueError\<close>
  when \<open>API_URL\<close> or \<open>ARGOCD_TOKEN\<close> is unset or empty (\<open>import_guard\<close>).
\<close>

record module =
  API_URL :: "string option"
  ARGOCD_TOKEN :: "string option"
  ARGOCD_VERIFY_SSL :: bool

definition import_guard :: "module \<Rightarrow> exn + unit" where
  "import_guard m =
     (if \<not> truthy (API_URL m)
        then Inl (OtherException ''ARGOCD_API_URL environment variable is not set.'')
      else if \<not> truthy (ARGOCD_TOKEN m)
        then Inl (OtherException ''ARGOCD_TOKEN environment variable is not set.'')
      else Inr ())"

text \<open>
  One HTTP exchange: the request handed to the \<open>httpx\<close> client (with the client's
  timeout and TLS setting), and the response fields the helper reads. \<open>resp_json\<close> is
  the outcome of \<open>response.json()\<close>: \<open>None\<close> when it raises \<open>ValueError\<close>.
\<close>

record request =
  req_method :: string
  req_url :: string
  req_headers :: "(string \<times> string) list"
  req_params :: "(string \<times> json) list"
  req_json :: "(string \<times> json) list option"
  req_timeout :: int
  req_verify :: bool

record response =
  status_code :: int
  resp_text :: string
  resp_json :: "json option"

type_synonym transport = "request \<Rightarrow> exn + response"

type_synonym result = "bool \<times> json"

definition supported_methods :: "string list" where
  "supported_methods = [''GET'', ''POST'', ''PUT'', ''PATCH'', ''DELETE'']"

definition token_required :: result where
  "token_required =
     (False, JObj [(''error'',
        JStr ''Token is required. Please set the API_KEY environment variable.'')])"

text \<open>Lines 58-60: the explicit token, or else the module's default.\<close>

definition resolve_token :: "module \<Rightarrow> string option \<Rightarrow> string option" where
  "resolve_token m token = (if \<not> truthy token then ARGOCD_TOKEN m else token)"

text \<open>Lines 70-73 and 100-105: headers and keyword arguments of the call.\<close>

definition build_request ::
  "module \<Rightarrow> string \<Rightarrow> string \<Rightarrow> string \<Rightarrow> (string \<times> json) list \<Rightarrow>
   (string \<times> json) list \<Rightarrow> int \<Rightarrow> request" where
  "build_request m path method tok params data timeout =
     \<lparr> req_method = method,
       req_url = (case API_URL m of None \<Rightarrow> ''None'' | Some u \<Rightarrow> u) @ path,
       req_headers = [(''Authorization'', ''Bearer '' @ tok),
                      (''Content-Type'', ''application/json'')],
       req_params = params,
       req_json = (if method \<in> set [''POST'', ''PUT'', ''PATCH''] then Some data else None),
       req_timeout = timeout,
       req_verify = ARGOCD_VERIFY_SSL m \<rparr>"

text \<open>Lines 125-138: a response whose status is not one of 200, 201, 202, 204.\<close>

definition error_response :: "python \<Rightarrow> response \<Rightarrow> exn + result" where
  "error_response py r =
     (let error_message = ''API request failed: '' @ str_int (status_code r) in
      case resp_json r of
        None \<Rightarrow>
          (let error_text = (if resp_text r \<noteq> [] then take 200 (resp_text r) else [])
           in Inr (False, JObj [(''error'', JStr (error_message @ '' - '' @ error_text))]))
      | Some error_data \<Rightarrow>
          (case py_in py ''error'' error_data of
             Inl e \<Rightarrow> Inl e
           | Inr True \<Rightarrow>
               (case py_getitem py error_data ''error'' of
                  Inl e \<Rightarrow> Inl e
                | Inr x \<Rightarrow>
                    Inr (False, JObj [(''error'', JStr (error_message @ '' - '' @ py_str py x)),
                                      (''details'', error_data)]))
           | Inr False \<Rightarrow>
               (case py_in py ''message'' error_data of
                  Inl e \<Rightarrow> Inl e
                | Inr True \<Rightarrow>
                    (case py_getitem py error_data ''message'' of
                       Inl e \<Rightarrow> Inl e
                     | Inr x \<Rightarrow>
                         Inr (False,
                              JObj [(''error'', JStr (error_message @ '' - '' @ py_str py x)),
                                    (''details'', error_data)]))
                | Inr False \<Rightarrow>
                    Inr (False, JObj [(''error'', JStr error_message),
                                      (''details'', error_data)]))))"

text \<open>Lines 113-138: the response codes.\<close>

definition handle_response :: "python \<Rightarrow> response \<Rightarrow> exn + result" where
  "handle_response py r =
     (if status_code r \<in> set [200, 201, 202, 204] then
        (if status_code r = 204 then Inr (True, JObj [(''status'', JStr ''success'')])
         else case resp_json r of
                Some response_data \<Rightarrow> Inr (True, response_data)
              | None \<Rightarrow> Inr (True, JObj [(''status'', JStr ''success''),
                                        (''raw_response'', JStr (resp_text r))]))
      else error_response py r)"

text \<open>
  Lines 70-138, the body of the \<open>try\<close>: the requests dispatched, and the value returned or
  the exception raised.
\<close>

definition try_body ::
  "python \<Rightarrow> module \<Rightarrow> transport \<Rightarrow> string \<Rightarrow> string \<Rightarrow> string \<Rightarrow>
   (string \<times> json) list \<Rightarrow> (string \<times> json) list \<Rightarrow> int \<Rightarrow>
   request list \<times> (exn + result)" where
  "try_body py m send path method tok params data timeout =
     (if method \<notin> set supported_methods
        then ([], Inr (False, JObj [(''error'', JStr (''Unsupported method: '' @ method))]))
      else
        (let req = build_request m path method tok params data timeout in
         ([req], case send req of Inl e \<Rightarrow> Inl e | Inr r \<Rightarrow> handle_response py r)))"

text \<open>Lines 147-148 and 154-155: the token scrubbed from an exception text.\<close>

definition redact :: "string \<Rightarrow> string \<Rightarrow> string" where
  "redact tok error_message =
     (if tok \<noteq> [] \<and> str_contains tok error_message
        then py_replace tok ''[REDACTED]'' error_message
      else error_message)"

text \<open>Lines 139-157: the \<open>except\<close> clauses, in their order.\<close>

fun handlers :: "string \<Rightarrow> int \<Rightarrow> exn \<Rightarrow> exn + result" where
  "handlers tok timeout (TimeoutException msg) =
     Inr (False, JObj [(''error'',
            JStr (''Request timed out after '' @ str_int timeout @ '' seconds''))])"
| "handlers tok timeout (HTTPStatusError code msg) =
     Inr (False, JObj [(''error'',
            JStr (''HTTP error: '' @ str_int code @ '' - '' @ msg))])"
| "handlers tok timeout (RequestError msg) =
     Inr (False, JObj [(''error'', JStr (''Request error: '' @ redact tok msg))])"
| "handlers tok timeout (OtherException msg) =
     Inr (False, JObj [(''error'', JStr (''Unexpected error: '' @ redact tok msg))])"
| "handlers tok timeout (NonException msg) = Inl (NonException msg)"

text \<open>
  \<open>make_api_request\<close>: the list of HTTP requests handed to the transport, and the
  returned pair, or the exception that leaves the function.
\<close>

definition make_api_request ::
  "python \<Rightarrow> module \<Rightarrow> transport \<Rightarrow> string \<Rightarrow> string \<Rightarrow> string option \<Rightarrow>
   (string \<times> json) list \<Rightarrow> (string \<times> json) list \<Rightarrow> int \<Rightarrow>
   request list \<times> (exn + result)" where
  "make_api_request py m send path method token params data timeout =
     (case resolve_token m token of
        None \<Rightarrow> ([], Inr token_required)
      | Some tok \<Rightarrow>
          if tok = [] then ([], Inr token_required)
          else
            (case try_body py m send path method tok params data timeout of
               (sent, Inr v) \<Rightarrow> (sent, Inr v)
             | (sent, Inl e) \<Rightarrow> (sent, handlers tok timeout e)))"

section \<open>The agent invocation shim\<close>









section \<open>Test doubles\<close>

text \<open>A transport that answers every request with one fixed outcome.\<close>

definition fixed_transport :: "exn + response \<Rightarrow> transport" where
  "fixed_transport out req = out"

text \<open>A runtime whose three texts are fixed strings.\<close>

definition stub_python :: python where
  "stub_python =
     \<lparr> str_of = (\<lambda>v. ''<value>''),
       not_container_msg = (\<lambda>v. ''argument is not iterable''),
       bad_index_msg = (\<lambda>v. ''indices must be integers'') \<rparr>"

definition test_module :: module where
  "test_module =
     \<lparr> API_URL = Some ''https://dummy-server'',
       ARGOCD_TOKEN = Some ''dummy-token'',
       ARGOCD_VERIFY_SSL = False \<rparr>"

definition bare_module :: module where
  "bare_module =
     \<lparr> API_URL = Some ''https://dummy-server'',
       ARGOCD_TOKEN = None,
       ARGOCD_VERIFY_SSL = True \<rparr>"

text \<open>Responses of the server, with the outcome of parsing each body.\<close>

definition no_content_response :: response where
  \<open>no_content_response =
     \<lparr> status_code = 204, resp_text = ''{"error": "ignored"}'',
       resp_json = Some (JObj [(''error'', JStr ''ignored'')]) \<rparr>\<close>









text \<open>
  A token that cannot be rebuilt from the fixed text around a redacted message: it is not
  empty, has none of the characters \<open>[\<close>, \<open>]\<close> and space, and does not occur in
  \<open>Request error: [REDACTED]\<close>.
\<close>

definition apart_from_fixed_text :: "string \<Rightarrow> bool" where
  "apart_from_fixed_text tok \<longleftrightarrow>
     tok \<noteq> [] \<and> CHR ''['' \<notin> set tok \<and> CHR '']'' \<notin> set tok \<and> CHR '' '' \<notin> set tok \<and>
     \<not> str_contains tok ''Request error: [REDACTED]''"

section \<open>Properties of the request helper\<close>

lemma resolve_token_None:
  "\<not> truthy token \<Longrightarrow> \<not> truthy (ARGOCD_TOKEN m) \<Longrightarrow>
   resolve_token m token = None \<or> resolve_token m token = Some []"
  by (auto simp: resolve_token_def truthy_def split: option.splits)

text \<open>
  C1. When the explicit token is absent or empty and the module's default token is absent
  or empty too, \<open>make_api_request\<close> returns the failure whose message says that a token is
  required, and hands no request to the transport.
\<close>

theorem no_token_fails_without_io:
  assumes "\<not> truthy token" and "\<not> truthy (ARGOCD_TOKEN m)"
  shows "make_api_request py m send path method token params data timeout =
           ([], Inr (False, JObj [(''error'',
              JStr ''Token is required. Please set the API_KEY environment variable.'')]))"
  using resolve_token_None [OF assms]
  by (auto simp: make_api_request_def token_required_def)

theorem no_token_fails_without_io_witness:
  "\<not> truthy None \<and> \<not> truthy (ARGOCD_TOKEN bare_module) \<and>
   make_api_request stub_python bare_module (fixed_transport (Inl (RequestError ''unreachable'')))
     ''/api/v1/applications'' ''GET'' None [] [] 30 =
     ([], Inr (False, JObj [(''error'',
        JStr ''Token is required. Please set the API_KEY environment variable.'')]))"
  using no_token_fails_without_io [of None bare_module stub_python
      "fixed_transport (Inl (RequestError ''unreachable''))" "''/api/v1/applications''" "''GET''" "[]" "[]" 30]
  by (simp add: truthy_def bare_module_def)

subsection \<open>Dispatch and the shape of results\<close>

text \<open>In a module whose import went through, every call has a token.\<close>

lemma import_guard_token_available:
  "import_guard m = Inr () \<Longrightarrow> truthy (resolve_token m token)"
  by (auto simp: import_guard_def resolve_token_def split: if_splits)

lemma make_api_request_dispatch:
  assumes "resolve_token m token = Some tok" and "tok \<noteq> []"
    and "method \<in> set supported_methods"
  shows "make_api_request py m send path method token params data timeout =
           ([build_request m path method tok params data timeout],
            case send (build_request m path method tok params data timeout) of
              Inl e \<Rightarrow> handlers tok timeout e
            | Inr r \<Rightarrow>
                (case handle_response py r of
                   Inl e \<Rightarrow> handlers tok timeout e
                 | Inr v \<Rightarrow> Inr v))"
  using assms
  by (simp add: make_api_request_def try_body_def Let_def split: sum.splits)

lemma error_response_cases:
  "(\<exists>msg. error_response py r = Inl (OtherException msg)) \<or>
   (\<exists>msg rest. error_response py r = Inr (False, JObj ((''error'', JStr msg) # rest)))"
  by (auto simp: error_response_def py_in_def py_getitem_def Let_def
           split: option.splits json.splits sum.splits bool.splits)

lemma handle_response_success:
  "status_code r \<in> set [200, 201, 202, 204] \<Longrightarrow> \<exists>v. handle_response py r = Inr (True, v)"
  by (auto simp: handle_response_def split: option.splits)

lemma handle_response_failure:
  "status_code r \<notin> set [200, 201, 202, 204] \<Longrightarrow> handle_response py r = error_response py r"
  by (simp add: handle_response_def)

lemma handle_response_cases:
  "(\<exists>msg. handle_response py r = Inl (OtherException msg)) \<or>
   (\<exists>v. handle_response py r = Inr (True, v)) \<or>
   (\<exists>msg rest. handle_response py r = Inr (False, JObj ((''error'', JStr msg) # rest)))"
proof (cases "status_code r \<in> set [200, 201, 202, 204]")
  case True
  from handle_response_success [OF this] show ?thesis by blast
next
  case False
  from handle_response_failure [OF this] error_response_cases [of py r]
  show ?thesis by auto
qed

lemma handlers_Exception:
  "is_Exception e \<Longrightarrow> \<exists>msg. handlers tok timeout e = Inr (False, JObj [(''error'', JStr msg)])"
  by (cases e) auto

text \<open>
  C2. For a method outside GET, POST, PUT, PATCH and DELETE, \<open>make_api_request\<close> hands no
  request to the transport and returns a failure with an error message; when a token is
  available (the check made before the method is looked up), the message is
  \<open>Unsupported method: \<close> followed by the method.
\<close>

theorem unsupported_method_fails_without_io:
  assumes "method \<notin> set supported_methods"
  shows "fst (make_api_request py m send path method token params data timeout) = [] \<and>
         (\<exists>msg. snd (make_api_request py m send path method token params data timeout) =
                  Inr (False, JObj [(''error'', JStr msg)])) \<and>
         (truthy (resolve_token m token) \<longrightarrow>
            snd (make_api_request py m send path method token params data timeout) =
              Inr (False, JObj [(''error'', JStr (''Unsupported method: '' @ method))]))"
  using assms
  by (auto simp: make_api_request_def try_body_def token_required_def truthy_def
           split: option.splits)

theorem unsupported_method_fails_without_io_witness:
  "''TRACE'' \<notin> set supported_methods \<and> truthy (resolve_token test_module None) \<and>
   make_api_request stub_python test_module
       (fixed_transport (Inl (RequestError ''unreachable'')))
       ''/api/v1/applications'' ''TRACE'' None [] [] 30 =
     ([], Inr (False, JObj [(''error'', JStr ''Unsupported method: TRACE'')]))"
proof -
  have m: "''TRACE'' \<notin> set supported_methods"
    by (simp add: supported_methods_def)
  have t: "truthy (resolve_token test_module None)"
    by (simp add: resolve_token_def truthy_def test_module_def)
  from unsupported_method_fails_without_io [OF m, of stub_python test_module
      "fixed_transport (Inl (RequestError ''unreachable''))" "''/api/v1/applications''"
      None "[]" "[]" 30] t m
  show ?thesis by (simp add: prod_eq_iff)
qed

text \<open>
  C3. When the transport answers the dispatched request with status 204,
  \<open>make_api_request\<close> returns success with the fixed payload \<open>{"status": "success"}\<close>,
  whatever the text of the body and the outcome of parsing it: the result reads neither.
\<close>

theorem no_content_fixed_marker:
  assumes "resolve_token m token = Some tok" and "tok \<noteq> []"
    and "method \<in> set supported_methods"
    and "send (build_request m path method tok params data timeout) = Inr r"
    and "status_code r = 204"
  shows "make_api_request py m send path method token params data timeout =
           ([build_request m path method tok params data timeout],
            Inr (True, JObj [(''status'', JStr ''success'')]))"
  using assms(4,5)
  by (simp add: make_api_request_dispatch [OF assms(1-3)] handle_response_def)

theorem no_content_fixed_marker_witness:
  "snd (make_api_request stub_python test_module (fixed_transport (Inr no_content_response))
          ''/api/v1/applications/guestbook'' ''DELETE'' None [] [] 30) =
     Inr (True, JObj [(''status'', JStr ''success'')])"
proof -
  have t: "resolve_token test_module None = Some ''dummy-token''" "''dummy-token'' \<noteq> []"
    by (simp_all add: resolve_token_def truthy_def test_module_def)
  have g: "''DELETE'' \<in> set supported_methods"
    by (simp add: supported_methods_def)
  have s: "\<And>req. fixed_transport (Inr no_content_response) req = Inr no_content_response"
    by (simp add: fixed_transport_def)
  have c: "status_code no_content_response = 204"
    by (simp add: no_content_response_def)
  from no_content_fixed_marker [where py = stub_python and m = test_module and token = None
      and send = "fixed_transport (Inr no_content_response)"
      and path = "''/api/v1/applications/guestbook''" and params = "[]" and data = "[]"
      and timeout = 30, OF t g s c]
  show ?thesis by simp
qed



subsection \<open>Error responses\<close>

lemma py_str_JStr [simp]: "py_str py (JStr s) = s"
  by (simp add: py_str_def)





subsection \<open>Redaction\<close>

lemma py_replace_absent:
  "old \<noteq> [] \<Longrightarrow> \<not> sublist old s \<Longrightarrow> py_replace old new s = s"
  by (induction s) (auto simp: sublist_Cons_right)

lemma redact_replace: "tok \<noteq> [] \<Longrightarrow> redact tok msg = py_replace tok ''[REDACTED]'' msg"
  by (simp add: redact_def str_contains_def py_replace_absent)

lemma py_replace_first:
  "old \<noteq> [] \<Longrightarrow> sublist old s \<Longrightarrow>
   \<exists>a b. s = a @ old @ b \<and> \<not> sublist old a \<and>
         py_replace old new s = a @ new @ py_replace old new b"
proof (induction s)
  case Nil
  then show ?case by simp
next
  case (Cons c cs)
  show ?case
  proof (cases "prefix old (c # cs)")
    case True
    then obtain b where b: "c # cs = old @ b" by (auto simp: prefix_def)
    then have "drop (length old) (c # cs) = b" by simp
    moreover have "py_replace old new (c # cs) =
        new @ py_replace old new (drop (length old) (c # cs))"
      using True Cons.prems(1) by simp
    ultimately have "py_replace old new (c # cs) = [] @ new @ py_replace old new b"
      by simp
    moreover have "\<not> sublist old []" using Cons.prems(1) by simp
    ultimately show ?thesis using b by (metis append_Nil)
  next
    case False
    with Cons.prems(2) have "sublist old cs" by (simp add: sublist_Cons_right)
    from Cons.IH [OF Cons.prems(1) this] obtain a b where
      ab: "cs = a @ old @ b" "\<not> sublist old a" "py_replace old new cs = a @ new @ py_replace old new b"
      by blast
    have "\<not> prefix old (c # a)"
    proof
      assume "prefix old (c # a)"
      then have "prefix old ((c # a) @ old @ b)" by (rule prefix_prefix)
      with ab(1) False show False by simp
    qed
    with ab(2) have "\<not> sublist old (c # a)" by (simp add: sublist_Cons_right)
    moreover have "c # cs = (c # a) @ old @ b" using ab(1) by simp
    moreover have "py_replace old new (c # cs) = (c # a) @ new @ py_replace old new b"
      using False Cons.prems(1) ab(3) by simp
    ultimately show ?thesis by blast
  qed
qed

lemma sublist_across_delimiter:
  assumes "d \<notin> set t" and "sublist t (xs @ d # ys)"
  shows "sublist t xs \<or> sublist t ys"
  using assms
  by (auto simp: sublist_append sublist_Cons_right prefix_Cons)

lemma replaced_free_of_token:
  assumes "tok \<noteq> []" and "CHR ''['' \<notin> set tok" and "CHR '']'' \<notin> set tok"
    and "\<not> sublist tok ''REDACTED''"
  shows "\<not> sublist tok (py_replace tok ''[REDACTED]'' s)"
proof (induction s rule: length_induct)
  case (1 s)
  show ?case
  proof (cases "sublist tok s")
    case False
    with assms(1) show ?thesis by (simp add: py_replace_absent)
  next
    case True
    from py_replace_first [OF assms(1) True, of "''[REDACTED]''"] obtain a b where
      ab: "s = a @ tok @ b" "\<not> sublist tok a"
        "py_replace tok ''[REDACTED]'' s = a @ ''[REDACTED]'' @ py_replace tok ''[REDACTED]'' b"
      by blast
    let ?rest = "py_replace tok ''[REDACTED]'' b"
    from ab(1) assms(1) have "length b < length s" by simp
    with 1 have rest: "\<not> sublist tok ?rest" by blast
    show ?thesis
    proof
      assume "sublist tok (py_replace tok ''[REDACTED]'' s)"
      then have "sublist tok (a @ CHR ''['' # (''REDACTED'' @ CHR '']'' # ?rest))"
        by (simp add: ab(3))
      from sublist_across_delimiter [OF assms(2) this] ab(2)
      have "sublist tok (''REDACTED'' @ CHR '']'' # ?rest)" by blast
      from sublist_across_delimiter [OF assms(3) this] assms(4) rest
      show False by blast
    qed
  qed
qed

lemma fixed_text_parts:
  "sublist ''REDACTED'' ''Request error: [REDACTED]''"
  "sublist ''Request'' ''Request error: [REDACTED]''"
  "sublist ''error:'' ''Request error: [REDACTED]''"
  by (simp_all add: sublist_Cons_right)

lemma request_error_free_of_token:
  assumes "apart_from_fixed_text tok"
  shows "\<not> sublist tok (''Request error: '' @ py_replace tok ''[REDACTED]'' s)"
proof
  let ?rest = "py_replace tok ''[REDACTED]'' s"
  from assms have tok: "tok \<noteq> []" "CHR ''['' \<notin> set tok" "CHR '']'' \<notin> set tok"
      "CHR '' '' \<notin> set tok" and whole: "\<not> sublist tok ''Request error: [REDACTED]''"
    by (simp_all add: apart_from_fixed_text_def str_contains_def)
  from whole fixed_text_parts have parts: "\<not> sublist tok ''REDACTED''"
      "\<not> sublist tok ''Request''" "\<not> sublist tok ''error:''"
    by (blast intro: sublist_order.order.trans)+
  assume "sublist tok (''Request error: '' @ ?rest)"
  then have "sublist tok (''Request'' @ CHR '' '' # (''error:'' @ CHR '' '' # ?rest))"
    by simp
  from sublist_across_delimiter [OF tok(4) this] parts(2)
  have "sublist tok (''error:'' @ CHR '' '' # ?rest)" by blast
  from sublist_across_delimiter [OF tok(4) this] parts(3)
  have "sublist tok ?rest" by blast
  with replaced_free_of_token [OF tok(1-3) parts(1)] show False by blast
qed

text \<open>
  C6 (as amended). When the transport raises a request error, the failure message is
  \<open>Request error: \<close> followed by the exception text in which the occurrences of the token,
  found from left to right, are replaced by \<open>[REDACTED]\<close>; this message does not contain
  the token, provided the token has none of the characters \<open>[\<close>, \<open>]\<close> and space and does
  not occur in the fixed text \<open>Request error: [REDACTED]\<close>.
\<close>

theorem transport_error_redacted:
  assumes "resolve_token m token = Some tok" and "tok \<noteq> []"
    and "method \<in> set supported_methods"
    and "send (build_request m path method tok params data timeout) = Inl (RequestError msg)"
    and "apart_from_fixed_text tok"
  shows "snd (make_api_request py m send path method token params data timeout) =
           Inr (False, JObj [(''error'',
             JStr (''Request error: '' @ py_replace tok ''[REDACTED]'' msg))]) \<and>
         \<not> str_contains tok (''Request error: '' @ py_replace tok ''[REDACTED]'' msg)"
  using assms(4) request_error_free_of_token [OF assms(5), of msg]
  by (simp add: make_api_request_dispatch [OF assms(1-3)] redact_replace [OF assms(2)]
        str_contains_def)

theorem transport_error_redacted_witness:
  "apart_from_fixed_text ''dummy-token'' \<and>
   str_contains ''dummy-token'' ''connect failed, header Bearer dummy-token'' \<and>
   snd (make_api_request stub_python test_module
          (fixed_transport (Inl (RequestError ''connect failed, header Bearer dummy-token'')))
          ''/api/v1/applications'' ''GET'' None [] [] 30) =
     Inr (False, JObj [(''error'',
        JStr ''Request error: connect failed, header Bearer [REDACTED]'')]) \<and>
   \<not> str_contains ''dummy-token'' ''Request error: connect failed, header Bearer [REDACTED]''"
proof -
  have t: "resolve_token test_module None = Some ''dummy-token''" "''dummy-token'' \<noteq> []"
    by (simp_all add: resolve_token_def truthy_def test_module_def)
  have g: "''GET'' \<in> set supported_methods"
    by (simp add: supported_methods_def)
  have a: "apart_from_fixed_text ''dummy-token''"
    by (simp add: apart_from_fixed_text_def str_contains_def sublist_Cons_right)
  have c: "str_contains ''dummy-token'' ''connect failed, header Bearer dummy-token''"
    by (simp add: str_contains_def sublist_Cons_right)
  have r: "py_replace ''dummy-token'' ''[REDACTED]'' ''connect failed, header Bearer dummy-token''
             = ''connect failed, header Bearer [REDACTED]''"
    by simp
  from transport_error_redacted [OF t g _ a, of
      "fixed_transport (Inl (RequestError ''connect failed, header Bearer dummy-token''))"
      "''/api/v1/applications''" "[]" "[]" 30 "''connect failed, header Bearer dummy-token''"
      stub_python] a c
  show ?thesis by (simp add: fixed_transport_def r)
qed

text \<open>
  C6 as stated fails for a token that occurs in the placeholder: with the token \<open>RED\<close> and
  the transport error \<open>xREDy\<close>, the returned message \<open>Request error: x[REDACTED]y\<close> still
  contains the token.
\<close>

theorem placeholder_token_counterexample:
  "str_contains ''RED'' ''xREDy'' \<and>
   snd (make_api_request stub_python test_module
          (fixed_transport (Inl (RequestError ''xREDy'')))
          ''/api/v1/applications'' ''GET'' (Some ''RED'') [] [] 30) =
     Inr (False, JObj [(''error'', JStr ''Request error: x[REDACTED]y'')]) \<and>
   str_contains ''RED'' ''Request error: x[REDACTED]y''"
  by (simp add: make_api_request_def resolve_token_def truthy_def try_body_def
        supported_methods_def fixed_transport_def redact_def str_contains_def
        sublist_Cons_right)

text \<open>
  C7 (as amended). The token is scrubbed from the exception text in the transport-error
  branch and in the catch-all branch for unexpected errors (both replace it by
  \<open>[REDACTED]\<close>); only the HTTP-status-error branch passes the exception text, with any
  token in it, through to the failure message unmodified.
\<close>

theorem redaction_by_error_kind:
  assumes "resolve_token m token = Some tok" and "tok \<noteq> []"
    and "method \<in> set supported_methods"
    and "send (build_request m path method tok params data timeout) = Inl e"
    and "make_api_request py m send path method token params data timeout = (sent, res)"
  shows "(\<forall>code msg. e = HTTPStatusError code msg \<longrightarrow>
            res = Inr (False, JObj [(''error'',
                    JStr (''HTTP error: '' @ str_int code @ '' - '' @ msg))]) \<and>
            (str_contains tok msg \<longrightarrow>
               str_contains tok (''HTTP error: '' @ str_int code @ '' - '' @ msg))) \<and>
         (\<forall>msg. e = RequestError msg \<longrightarrow>
            res = Inr (False, JObj [(''error'',
                    JStr (''Request error: '' @ py_replace tok ''[REDACTED]'' msg))])) \<and>
         (\<forall>msg. e = OtherException msg \<longrightarrow>
            res = Inr (False, JObj [(''error'',
                    JStr (''Unexpected error: '' @ py_replace tok ''[REDACTED]'' msg))]))"
proof -
  have res: "res = handlers tok timeout e"
    using assms(4,5) by (simp add: make_api_request_dispatch [OF assms(1-3)])
  have sub: "\<And>code msg. sublist tok msg \<Longrightarrow>
      sublist tok (''HTTP error: '' @ str_int code @ '' - '' @ msg)"
    by (metis append.assoc sublist_append)
  show ?thesis
    using sub by (auto simp: res redact_replace [OF assms(2)] str_contains_def)
qed

theorem redaction_by_error_kind_witness:
  "snd (make_api_request stub_python test_module
          (fixed_transport (Inl (HTTPStatusError 401 ''401 for Bearer dummy-token'')))
          ''/api/v1/applications'' ''GET'' None [] [] 30) =
     Inr (False, JObj [(''error'', JStr ''HTTP error: 401 - 401 for Bearer dummy-token'')]) \<and>
   str_contains ''dummy-token'' ''HTTP error: 401 - 401 for Bearer dummy-token'' \<and>
   snd (make_api_request stub_python test_module
          (fixed_transport (Inl (RequestError ''connect failed for Bearer dummy-token'')))
          ''/api/v1/applications'' ''GET'' None [] [] 30) =
     Inr (False, JObj [(''error'', JStr ''Request error: connect failed for Bearer [REDACTED]'')]) \<and>
   snd (make_api_request stub_python test_module
          (fixed_transport (Inl (OtherException ''bad header Bearer dummy-token'')))
          ''/api/v1/applications'' ''GET'' None [] [] 30) =
     Inr (False, JObj [(''error'', JStr ''Unexpected error: bad header Bearer [REDACTED]'')])"
proof -
  have t: "resolve_token test_module None = Some ''dummy-token''" "''dummy-token'' \<noteq> []"
    by (simp_all add: resolve_token_def truthy_def test_module_def)
  have g: "''GET'' \<in> set supported_methods"
    by (simp add: supported_methods_def)
  have s: "\<And>out req. fixed_transport out req = out"
    by (simp add: fixed_transport_def)
  have n: "str_int 401 = ''401''"
    by (simp add: str_int_def str_nat.simps)
  have c: "str_contains ''dummy-token'' ''401 for Bearer dummy-token''"
    by (simp add: str_contains_def sublist_Cons_right)
  note w = redaction_by_error_kind [where py = stub_python and m = test_module
      and token = None and path = "''/api/v1/applications''"
      and params = "[]" and data = "[]" and timeout = 30, OF t g _ surjective_pairing]
  from w [where send = "fixed_transport (Inl (HTTPStatusError 401 ''401 for Bearer dummy-token''))",
      OF s]
    w [where send = "fixed_transport (Inl (RequestError ''connect failed for Bearer dummy-token''))",
      OF s]
    w [where send = "fixed_transport (Inl (OtherException ''bad header Bearer dummy-token''))",
      OF s] c
  show ?thesis by (simp add: n)
qed

text \<open>
  C7 as stated fails in the catch-all branch: an unexpected error whose text holds the
  token is returned with the token replaced, not unmodified.
\<close>

theorem catch_all_redacts_counterexample:
  "str_contains ''dummy-token'' ''bad header Bearer dummy-token'' \<and>
   snd (make_api_request stub_python test_module
          (fixed_transport (Inl (OtherException ''bad header Bearer dummy-token'')))
          ''/api/v1/applications'' ''GET'' None [] [] 30) =
     Inr (False, JObj [(''error'', JStr ''Unexpected error: bad header Bearer [REDACTED]'')]) \<and>
   snd (make_api_request stub_python test_module
          (fixed_transport (Inl (OtherException ''bad header Bearer dummy-token'')))
          ''/api/v1/applications'' ''GET'' None [] [] 30) \<noteq>
     Inr (False, JObj [(''error'', JStr ''Unexpected error: bad header Bearer dummy-token'')]) \<and>
   \<not> str_contains ''dummy-token'' ''Unexpected error: bad header Bearer [REDACTED]''"
  by (simp add: make_api_request_def resolve_token_def truthy_def test_module_def try_body_def
        supported_methods_def fixed_transport_def redact_def str_contains_def
        sublist_Cons_right)

text \<open>
  C8. \<open>make_api_request\<close> raises nothing to its caller: for every input and every
  transport that returns a response or raises an instance of \<open>Exception\<close> (a timeout, a
  request error, an HTTP status error or any other), it returns a pair, and the payload of
  every failure is a dict whose \<open>error\<close> entry is a string.
\<close>

theorem never_raises:
  assumes "\<forall>req e. send req = Inl e \<longrightarrow> is_Exception e"
  shows "\<exists>ok payload.
           snd (make_api_request py m send path method token params data timeout) =
             Inr (ok, payload) \<and>
           (\<not> ok \<longrightarrow> (\<exists>msg rest. payload = JObj ((''error'', JStr msg) # rest)))"
proof -
  let ?R = "snd (make_api_request py m send path method token params data timeout)"
  let ?fail = "\<lambda>res. \<exists>msg rest. res = Inr (False, JObj ((''error'', JStr msg) # rest))"
  consider (none) "\<not> truthy (resolve_token m token)"
    | (bad) tok where "resolve_token m token = Some tok" "tok \<noteq> []"
        "method \<notin> set supported_methods"
    | (sent) tok where "resolve_token m token = Some tok" "tok \<noteq> []"
        "method \<in> set supported_methods"
    by (cases "resolve_token m token") (auto simp: truthy_def)
  then have "(\<exists>v. ?R = Inr (True, v)) \<or> ?fail ?R"
  proof cases
    case none
    then show ?thesis
      by (auto simp: make_api_request_def token_required_def truthy_def split: option.splits)
  next
    case bad
    then show ?thesis
      by (simp add: make_api_request_def try_body_def)
  next
    case sent
    let ?req = "build_request m path method tok params data timeout"
    note d = make_api_request_dispatch [OF sent, of py send path params data timeout]
    show ?thesis
    proof (cases "send ?req")
      case (Inl e)
      with assms have "is_Exception e" by blast
      from handlers_Exception [OF this, of tok timeout] Inl show ?thesis
        by (auto simp: d)
    next
      case (Inr r)
      from handle_response_cases [of py r] show ?thesis
      proof (elim disjE exE)
        fix msg assume "handle_response py r = Inl (OtherException msg)"
        with Inr show ?thesis by (simp add: d)
      next
        fix v assume "handle_response py r = Inr (True, v)"
        with Inr show ?thesis by (simp add: d)
      next
        fix msg rest
        assume "handle_response py r = Inr (False, JObj ((''error'', JStr msg) # rest))"
        with Inr show ?thesis by (simp add: d)
      qed
    qed
  qed
  then show ?thesis by auto
qed

theorem never_raises_witness:
  "snd (make_api_request stub_python test_module
          (fixed_transport (Inl (TimeoutException ''timed out'')))
          ''/api/v1/applications'' ''GET'' None [] [] 30) =
     Inr (False, JObj [(''error'', JStr ''Request timed out after 30 seconds'')])"
proof -
  have h: "\<forall>req e. fixed_transport (Inl (TimeoutException ''timed out'')) req = Inl e \<longrightarrow>
      is_Exception e"
    by (auto simp: fixed_transport_def)
  have n: "str_int 30 = ''30''"
    by (simp add: str_int_def str_nat.simps)
  from never_raises [of "fixed_transport (Inl (TimeoutException ''timed out''))" stub_python
      test_module "''/api/v1/applications''" "''GET''" None "[]" "[]" 30, OF h]
  show ?thesis
    by (simp add: make_api_request_def resolve_token_def truthy_def test_module_def
          try_body_def supported_methods_def fixed_transport_def n)
qed



section \<open>Properties of the agent invocation shim\<close>


end
